theory Spec2Isabelle
  imports Complex_Main
begin

section \<open>Numbers\<close>

text \<open>
  The calculator works on JavaScript numbers. The inputs of the projection engine are
  finite numbers (\<open>numberFromQuery\<close> and \<open>LabeledNumber\<close> pass a value on only when
  \<open>Number.isFinite\<close> holds, and a range input yields one), any finite number, of
  either sign. They are modelled as exact reals: the rounding error and the overflow
  of IEEE doubles are not part of the model. The one non-finite value
  the engine produces itself is the literal \<open>Infinity\<close> of \<open>monthsToGoal\<close>, so that
  field has the type \<open>number\<close>, a real or \<open>Infinity\<close>.
\<close>

datatype number = Num real | Infinity

text \<open>\<open>Math.ceil\<close>, \<open>Math.round\<close> (nearest integer, a tie goes up) and \<open>Math.max\<close>.\<close>

definition Math_ceil :: "real \<Rightarrow> real" where
  "Math_ceil x = of_int \<lceil>x\<rceil>"

definition Math_round :: "real \<Rightarrow> real" where
  "Math_round x = of_int \<lfloor>x + 1 / 2\<rfloor>"

definition Math_max :: "real \<Rightarrow> real \<Rightarrow> real" where
  "Math_max a b = (if a < b then b else a)"

section \<open>The projection engine\<close>

record CalculatorState =
  targetMonthlyRevenue :: real
  pricePerClient :: real
  videosPerMonth :: real
  avgViewsPerVideo :: real
  viewToBookingRatePct :: real
  showRatePct :: real
  closeRatePct :: real

text \<open>The object \<open>computeProjection\<close> returns.\<close>

record Projection =
  clientsNeeded :: real
  monthlyReach :: real
  bookingsPerMonth :: real
  showsPerMonth :: real
  newClientsPerMonth :: real
  newMRR :: real
  monthsToGoal :: number

text \<open>
  The repository has two page components, each with its own \<open>computeProjection\<close>.
  The first rounds the new clients before pricing them (its comment: align the displayed
  New MRR with the rounded New Clients/Month metric); the second does not.
\<close>

definition computeProjection_rounded :: "CalculatorState \<Rightarrow> Projection" where
  "computeProjection_rounded s =
    (let viewToBookingRate = viewToBookingRatePct s / 100;
         showRate = showRatePct s / 100;
         closeRate = closeRatePct s / 100;
         clientsNeeded' =
           Math_ceil (targetMonthlyRevenue s / Math_max 1 (pricePerClient s));
         monthlyReach' = videosPerMonth s * avgViewsPerVideo s;
         bookingsPerMonth' = monthlyReach' * viewToBookingRate;
         showsPerMonth' = bookingsPerMonth' * showRate;
         newClientsPerMonth' = showsPerMonth' * closeRate;
         newClientsRounded = Math_round newClientsPerMonth';
         newMRR' = newClientsRounded * pricePerClient s;
         monthsToGoal' =
           (if newClientsPerMonth' > 0
            then Num (Math_ceil (clientsNeeded' / newClientsPerMonth'))
            else Infinity)
     in \<lparr>clientsNeeded = clientsNeeded',
         monthlyReach = monthlyReach',
         bookingsPerMonth = bookingsPerMonth',
         showsPerMonth = showsPerMonth',
         newClientsPerMonth = newClientsPerMonth',
         newMRR = newMRR',
         monthsToGoal = monthsToGoal'\<rparr>)"

definition computeProjection_unrounded :: "CalculatorState \<Rightarrow> Projection" where
  "computeProjection_unrounded s =
    (let viewToBookingRate = viewToBookingRatePct s / 100;
         showRate = showRatePct s / 100;
         closeRate = closeRatePct s / 100;
         clientsNeeded' =
           Math_ceil (targetMonthlyRevenue s / Math_max 1 (pricePerClient s));
         monthlyReach' = videosPerMonth s * avgViewsPerVideo s;
         bookingsPerMonth' = monthlyReach' * viewToBookingRate;
         showsPerMonth' = bookingsPerMonth' * showRate;
         newClientsPerMonth' = showsPerMonth' * closeRate;
         newMRR' = newClientsPerMonth' * pricePerClient s;
         monthsToGoal' =
           (if newClientsPerMonth' > 0
            then Num (Math_ceil (clientsNeeded' / newClientsPerMonth'))
            else Infinity)
     in \<lparr>clientsNeeded = clientsNeeded',
         monthlyReach = monthlyReach',
         bookingsPerMonth = bookingsPerMonth',
         showsPerMonth = showsPerMonth',
         newClientsPerMonth = newClientsPerMonth',
         newMRR = newMRR',
         monthsToGoal = monthsToGoal'\<rparr>)"

text \<open>
  The two pages start from different defaults (the \<open>useState\<close> initialiser of each
  \<open>Home\<close> component, with an empty query string).
\<close>

definition defaults_rounded :: CalculatorState where
  "defaults_rounded =
    \<lparr>targetMonthlyRevenue = 50000, pricePerClient = 500, videosPerMonth = 12,
     avgViewsPerVideo = 1000, viewToBookingRatePct = 0.8, showRatePct = 60,
     closeRatePct = 40\<rparr>"


section \<open>The subscribe endpoint\<close>

text \<open>
  \<open>POST\<close> of \<open>api/subscribe/route.ts\<close>. What \<open>req.json()\<close> parses is a JSON
  value; a JavaScript value read out of it is a \<open>json option\<close>, \<open>None\<close> for
  \<open>undefined\<close>. An exception is a value of \<open>thrown\<close>.
\<close>

datatype json =
    JNull
  | JBool bool
  | JNumber real
  | JString string
  | JArray "json list"
  | JObject "(string \<times> json) list"

datatype thrown = SyntaxError | TypeError

text \<open>\<open>!v\<close> is \<open>\<not> truthy v\<close>.\<close>

fun truthy :: "json option \<Rightarrow> bool" where
  "truthy None = False"
| "truthy (Some JNull) = False"
| "truthy (Some (JBool b)) = b"
| "truthy (Some (JNumber x)) = (x \<noteq> 0)"
| "truthy (Some (JString t)) = (t \<noteq> [])"
| "truthy (Some (JArray _)) = True"
| "truthy (Some (JObject _)) = True"

fun typeof :: "json option \<Rightarrow> string" where
  "typeof None = ''undefined''"
| "typeof (Some JNull) = ''object''"
| "typeof (Some (JBool _)) = ''boolean''"
| "typeof (Some (JNumber _)) = ''number''"
| "typeof (Some (JString _)) = ''string''"
| "typeof (Some (JArray _)) = ''object''"
| "typeof (Some (JObject _)) = ''object''"

text \<open>
  Reading a property in the destructuring \<open>const { email, payload } = ...\<close>: it throws
  on \<open>null\<close>, finds the member of an object (the last one when the text repeats a
  key, as \<open>JSON.parse\<close> keeps it), and is \<open>undefined\<close> on a boolean, a number, a string
  or an array, which have no property of these names.
\<close>

fun property :: "json \<Rightarrow> string \<Rightarrow> thrown + json option" where
  "property JNull k = Inl TypeError"
| "property (JObject kvs) k = Inr (map_of (rev kvs) k)"
| "property _ k = Inr None"

text \<open>\<open>v ?? d\<close>.\<close>

definition nullish :: "json option \<Rightarrow> json \<Rightarrow> json" where
  "nullish v d = (case v of None \<Rightarrow> d | Some JNull \<Rightarrow> d | Some x \<Rightarrow> x)"

text \<open>
  \<open>JSON.stringify\<close> of an object literal, as the JSON value its text denotes: a
  property whose value is \<open>undefined\<close> is left out.
\<close>

definition JSON_stringify :: "(string \<times> json option) list \<Rightarrow> json" where
  "JSON_stringify props =
     JObject (List.map_filter (\<lambda>(k, v). map_option (Pair k) v) props)"

record NextResponse =
  status :: nat
  content :: json

text \<open>\<open>NextResponse.json(data, init)\<close>; the status is 200 when \<open>init\<close> gives none.\<close>

definition NextResponse_json :: "json \<Rightarrow> nat option \<Rightarrow> NextResponse" where
  "NextResponse_json data init =
     \<lparr>status = (case init of None \<Rightarrow> 200 | Some c \<Rightarrow> c), content = data\<rparr>"

text \<open>One call of \<open>fetch(url, {method, headers, body})\<close>.\<close>

record FetchCall =
  url :: string
  http_method :: string
  headers :: "(string \<times> string) list"
  body :: json

text \<open>
  \<open>req.json()\<close>: the request is given by its parsed body, \<open>None\<close> when the body is
  not JSON text, and then \<open>req.json()\<close> throws.
\<close>

definition req_json :: "json option \<Rightarrow> thrown + json" where
  "req_json req = (case req of None \<Rightarrow> Inl SyntaxError | Some v \<Rightarrow> Inr v)"

text \<open>
  The body of the \<open>try\<close> block. Its parameters are the request, \<open>process.env\<close> and
  the network: \<open>fetch call\<close> is \<open>Inr ()\<close> when the promise resolves (the handler
  ignores the webhook's answer) and \<open>Inl\<close> the exception when it rejects. The result is
  the response returned or the exception thrown, and the calls of \<open>fetch\<close> made.
  \<open>!url\<close> holds for an unset variable and for an empty one.
\<close>

definition POST_try ::
  "json option \<Rightarrow> (string \<Rightarrow> string option) \<Rightarrow> (FetchCall \<Rightarrow> thrown + unit)
     \<Rightarrow> (thrown + NextResponse) \<times> FetchCall list" where
  "POST_try req process_env fetch =
    (case req_json req of
       Inl err \<Rightarrow> (Inl err, [])
     | Inr parsed \<Rightarrow>
        (case property parsed ''email'' of
           Inl err \<Rightarrow> (Inl err, [])
         | Inr email \<Rightarrow>
            (case property parsed ''payload'' of
               Inl err \<Rightarrow> (Inl err, [])
             | Inr payload \<Rightarrow>
                if \<not> truthy email \<or> typeof email \<noteq> ''string''
                then (Inr (NextResponse_json
                        (JObject [(''ok'', JBool False),
                                  (''error'', JString ''Invalid email'')])
                        (Some 400)), [])
                else
                  (case process_env ''SUBSCRIBE_WEBHOOK_URL'' of
                     None \<Rightarrow>
                       (Inr (NextResponse_json
                          (JObject [(''ok'', JBool False),
                                    (''error'', JString ''Missing SUBSCRIBE_WEBHOOK_URL'')])
                          (Some 500)), [])
                   | Some u \<Rightarrow>
                       if u = []
                       then (Inr (NextResponse_json
                          (JObject [(''ok'', JBool False),
                                    (''error'', JString ''Missing SUBSCRIBE_WEBHOOK_URL'')])
                          (Some 500)), [])
                       else
                         (let call = \<lparr>url = u, http_method = ''POST'',
                                headers = [(''Content-Type'', ''application/json'')],
                                body = JSON_stringify
                                  [(''email'', email),
                                   (''payload'', Some (nullish payload JNull)),
                                   (''source'',
                                    Some (JString ''prjct-zenith-calculator''))]\<rparr>
                          in (case fetch call of
                                Inl err \<Rightarrow> (Inl err, [call])
                              | Inr _ \<Rightarrow>
                                  (Inr (NextResponse_json
                                     (JObject [(''ok'', JBool True)]) None),
                                   [call])))))))"

text \<open>The handler: whatever the \<open>try\<close> block throws becomes the answer of the \<open>catch\<close>.\<close>

definition POST ::
  "json option \<Rightarrow> (string \<Rightarrow> string option) \<Rightarrow> (FetchCall \<Rightarrow> thrown + unit)
     \<Rightarrow> NextResponse \<times> FetchCall list" where
  "POST req process_env fetch =
    (case POST_try req process_env fetch of
       (Inr res, calls) \<Rightarrow> (res, calls)
     | (Inl err, calls) \<Rightarrow>
         (NextResponse_json
            (JObject [(''ok'', JBool False), (''error'', JString ''Bad request'')])
            (Some 400), calls))"

subsection \<open>Notions the statements use\<close>

text \<open>The request is an object whose \<open>email\<close> is the string \<open>e\<close>.\<close>

abbreviation string_email :: "json option \<Rightarrow> (string \<times> json) list \<Rightarrow> string \<Rightarrow> bool" where
  "string_email req kvs e \<equiv>
     req = Some (JObject kvs) \<and> map_of (rev kvs) ''email'' = Some (JString e)"

text \<open>The call that forwards email \<open>e\<close> and payload \<open>p\<close> to the webhook at \<open>u\<close>.\<close>

definition webhook_call :: "string \<Rightarrow> string \<Rightarrow> json \<Rightarrow> FetchCall" where
  "webhook_call u e p =
     \<lparr>url = u, http_method = ''POST'',
      headers = [(''Content-Type'', ''application/json'')],
      body = JObject [(''email'', JString e), (''payload'', p),
                      (''source'', JString ''prjct-zenith-calculator'')]\<rparr>"

text \<open>A network on which every call resolves, one on which every call rejects, and a
  configuration that sets the webhook.\<close>

definition fetch_resolves :: "FetchCall \<Rightarrow> thrown + unit" where
  "fetch_resolves call = Inr ()"


definition hook_env :: "string \<Rightarrow> string option" where
  "hook_env = [''SUBSCRIBE_WEBHOOK_URL'' \<mapsto> ''https://hooks.example.com/subscribe'']"

section \<open>The fields of the result\<close>


lemma Math_max_one_nonpos: "p \<le> 0 \<Longrightarrow> Math_max 1 p = 1"
  by (simp add: Math_max_def)



lemma rounded_fields:
  "clientsNeeded (computeProjection_rounded s) =
     Math_ceil (targetMonthlyRevenue s / Math_max 1 (pricePerClient s))"
  "monthlyReach (computeProjection_rounded s) = videosPerMonth s * avgViewsPerVideo s"
  "bookingsPerMonth (computeProjection_rounded s) =
     monthlyReach (computeProjection_rounded s) * (viewToBookingRatePct s / 100)"
  "showsPerMonth (computeProjection_rounded s) =
     bookingsPerMonth (computeProjection_rounded s) * (showRatePct s / 100)"
  "newClientsPerMonth (computeProjection_rounded s) =
     showsPerMonth (computeProjection_rounded s) * (closeRatePct s / 100)"
  "newMRR (computeProjection_rounded s) =
     Math_round (newClientsPerMonth (computeProjection_rounded s)) * pricePerClient s"
  "monthsToGoal (computeProjection_rounded s) =
     (if newClientsPerMonth (computeProjection_rounded s) > 0
      then Num (Math_ceil (clientsNeeded (computeProjection_rounded s) /
                           newClientsPerMonth (computeProjection_rounded s)))
      else Infinity)"
  by (simp_all add: computeProjection_rounded_def Let_def)

lemma unrounded_fields:
  "clientsNeeded (computeProjection_unrounded s) =
     Math_ceil (targetMonthlyRevenue s / Math_max 1 (pricePerClient s))"
  "monthlyReach (computeProjection_unrounded s) = videosPerMonth s * avgViewsPerVideo s"
  "bookingsPerMonth (computeProjection_unrounded s) =
     monthlyReach (computeProjection_unrounded s) * (viewToBookingRatePct s / 100)"
  "showsPerMonth (computeProjection_unrounded s) =
     bookingsPerMonth (computeProjection_unrounded s) * (showRatePct s / 100)"
  "newClientsPerMonth (computeProjection_unrounded s) =
     showsPerMonth (computeProjection_unrounded s) * (closeRatePct s / 100)"
  "newMRR (computeProjection_unrounded s) =
     newClientsPerMonth (computeProjection_unrounded s) * pricePerClient s"
  "monthsToGoal (computeProjection_unrounded s) =
     (if newClientsPerMonth (computeProjection_unrounded s) > 0
      then Num (Math_ceil (clientsNeeded (computeProjection_unrounded s) /
                           newClientsPerMonth (computeProjection_unrounded s)))
      else Infinity)"
  by (simp_all add: computeProjection_unrounded_def Let_def)


lemmas engine_simps =
  computeProjection_rounded_def computeProjection_unrounded_def Let_def
  Math_ceil_def Math_round_def Math_max_def





text \<open>
  C3, as stated, fails. With a price of 0 and a target of 0 the denominator is 1 and the
  division is fine, but \<open>clientsNeeded\<close> is \<open>ceiling (0 / 1) = 0\<close>: a zero result, in
  both variants.
\<close>

theorem C3_nonpositive_price_counterexample:
  "pricePerClient (defaults_rounded\<lparr>targetMonthlyRevenue := 0, pricePerClient := 0\<rparr>) \<le> 0
   \<and> clientsNeeded (computeProjection_rounded
        (defaults_rounded\<lparr>targetMonthlyRevenue := 0, pricePerClient := 0\<rparr>)) = 0
   \<and> clientsNeeded (computeProjection_unrounded
        (defaults_rounded\<lparr>targetMonthlyRevenue := 0, pricePerClient := 0\<rparr>)) = 0"
  by (simp add: engine_simps defaults_rounded_def)

text \<open>
  C3, amended. For every input with \<open>pricePerClient \<le> 0\<close> the denominator
  \<open>max 1 pricePerClient\<close> is 1, so it is never zero or negative and the division never
  fails, and \<open>clientsNeeded = ceiling (targetMonthlyRevenue / 1)\<close>; the result is at
  least 1 whenever \<open>targetMonthlyRevenue > 0\<close>.
\<close>

theorem C3_nonpositive_price:
  fixes s :: CalculatorState
  defines "r \<equiv> computeProjection_rounded s" and "u \<equiv> computeProjection_unrounded s"
  assumes "pricePerClient s \<le> 0"
  shows "Math_max 1 (pricePerClient s) = 1
       \<and> clientsNeeded r = of_int \<lceil>targetMonthlyRevenue s / 1\<rceil>
       \<and> clientsNeeded u = of_int \<lceil>targetMonthlyRevenue s / 1\<rceil>
       \<and> (0 < targetMonthlyRevenue s \<longrightarrow> 1 \<le> clientsNeeded r \<and> 1 \<le> clientsNeeded u)"
proof -
  have d: "Math_max 1 (pricePerClient s) = 1"
    using assms(3) by (rule Math_max_one_nonpos)
  have cr: "clientsNeeded r = of_int \<lceil>targetMonthlyRevenue s / 1\<rceil>"
    unfolding r_def by (simp add: rounded_fields d Math_ceil_def)
  have cu: "clientsNeeded u = of_int \<lceil>targetMonthlyRevenue s / 1\<rceil>"
    unfolding u_def by (simp add: unrounded_fields d Math_ceil_def)
  have "0 < targetMonthlyRevenue s \<Longrightarrow> 1 \<le> clientsNeeded r \<and> 1 \<le> clientsNeeded u"
    unfolding cr cu by simp
  with d cr cu show ?thesis by blast
qed

text \<open>C3 at a price of \<open>-500\<close> with the default target of 50000: 50000 clients.\<close>

theorem C3_nonpositive_price_witness:
  "pricePerClient (defaults_rounded\<lparr>pricePerClient := - 500\<rparr>) \<le> 0
   \<and> 0 < targetMonthlyRevenue (defaults_rounded\<lparr>pricePerClient := - 500\<rparr>)
   \<and> clientsNeeded (computeProjection_rounded (defaults_rounded\<lparr>pricePerClient := - 500\<rparr>))
       = 50000
   \<and> 1 \<le> clientsNeeded
       (computeProjection_unrounded (defaults_rounded\<lparr>pricePerClient := - 500\<rparr>))"
proof -
  have p: "pricePerClient (defaults_rounded\<lparr>pricePerClient := - 500\<rparr>) \<le> 0"
    by simp
  have t: "0 < targetMonthlyRevenue (defaults_rounded\<lparr>pricePerClient := - 500\<rparr>)"
    by (simp add: defaults_rounded_def)
  have v: "targetMonthlyRevenue (defaults_rounded\<lparr>pricePerClient := - 500\<rparr>) = 50000"
    by (simp add: defaults_rounded_def)
  from C3_nonpositive_price [OF p] t
  have "clientsNeeded
          (computeProjection_rounded (defaults_rounded\<lparr>pricePerClient := - 500\<rparr>))
        = of_int \<lceil>targetMonthlyRevenue (defaults_rounded\<lparr>pricePerClient := - 500\<rparr>) / 1\<rceil>"
    and u: "1 \<le> clientsNeeded
          (computeProjection_unrounded (defaults_rounded\<lparr>pricePerClient := - 500\<rparr>))"
    by blast+
  then have "clientsNeeded
          (computeProjection_rounded (defaults_rounded\<lparr>pricePerClient := - 500\<rparr>)) = 50000"
    unfolding v by simp
  with p t u show ?thesis by blast
qed











section \<open>The subscribe endpoint: what it answers and what it forwards\<close>

lemmas POST_simps =
  POST_def POST_try_def req_json_def NextResponse_json_def JSON_stringify_def
  nullish_def List.map_filter_simps webhook_call_def Let_def

text \<open>Without an \<open>email\<close> that is a non-empty string the answer is 400 and no call is made.\<close>

lemma POST_no_email:
  assumes "\<nexists>kvs e. string_email req kvs e \<and> e \<noteq> []"
  shows "status (fst (POST req env fetch)) = 400 \<and> snd (POST req env fetch) = []"
proof (cases req)
  case None
  then show ?thesis by (simp add: POST_simps)
next
  case (Some parsed)
  show ?thesis
  proof (cases parsed)
    case (JObject kvs)
    show ?thesis
    proof (cases "map_of (rev kvs) ''email''")
      case None
      with Some JObject show ?thesis by (simp add: POST_simps)
    next
      case (Some v)
      with assms \<open>req = Some parsed\<close> JObject show ?thesis
        by (cases v) (auto simp add: POST_simps)
    qed
  qed (simp_all add: Some POST_simps)
qed

text \<open>With one, the answer depends on the configuration and on the network only.\<close>

lemma POST_email:
  assumes "string_email req kvs e" and "e \<noteq> []"
  shows "POST req env fetch =
    (case env ''SUBSCRIBE_WEBHOOK_URL'' of
       None \<Rightarrow>
         (\<lparr>status = 500, content = JObject [(''ok'', JBool False),
             (''error'', JString ''Missing SUBSCRIBE_WEBHOOK_URL'')]\<rparr>, [])
     | Some u \<Rightarrow>
         if u = []
         then (\<lparr>status = 500, content = JObject [(''ok'', JBool False),
                 (''error'', JString ''Missing SUBSCRIBE_WEBHOOK_URL'')]\<rparr>, [])
         else (case fetch (webhook_call u e (nullish (map_of (rev kvs) ''payload'') JNull)) of
                 Inl x \<Rightarrow>
                   (\<lparr>status = 400, content = JObject [(''ok'', JBool False),
                       (''error'', JString ''Bad request'')]\<rparr>,
                    [webhook_call u e (nullish (map_of (rev kvs) ''payload'') JNull)])
               | Inr y \<Rightarrow>
                   (\<lparr>status = 200, content = JObject [(''ok'', JBool True)]\<rparr>,
                    [webhook_call u e (nullish (map_of (rev kvs) ''payload'') JNull)])))"
  using assms
  by (simp add: POST_def POST_try_def req_json_def NextResponse_json_def JSON_stringify_def
      List.map_filter_simps webhook_call_def Let_def split: option.split sum.split)




text \<open>
  C8. The email is checked before the configuration. A request whose \<open>email\<close> is
  missing or not a string is answered with 400 whatever the configuration, also when the
  webhook URL is absent; and an answer of 500 is given only to a request whose \<open>email\<close>
  is a non-empty string (and only when the webhook URL is absent or empty).
\<close>

theorem C8_email_before_config:
  fixes req :: "json option" and env :: "string \<Rightarrow> string option"
    and fetch :: "FetchCall \<Rightarrow> thrown + unit"
  shows "((\<nexists>kvs e. string_email req kvs e) \<longrightarrow>
            status (fst (POST req env fetch)) = 400
          \<and> status (fst (POST req (env(''SUBSCRIBE_WEBHOOK_URL'' := None)) fetch)) = 400)
       \<and> (status (fst (POST req env fetch)) = 500 \<longrightarrow>
            (\<exists>kvs e. string_email req kvs e \<and> e \<noteq> [])
          \<and> (env ''SUBSCRIBE_WEBHOOK_URL'' = None \<or> env ''SUBSCRIBE_WEBHOOK_URL'' = Some []))"
proof -
  have a: "status (fst (POST req env' fetch)) = 400"
    if "\<nexists>kvs e. string_email req kvs e" for env'
    using POST_no_email [of req env' fetch] that by blast
  have b: "\<exists>kvs e. string_email req kvs e \<and> e \<noteq> []"
    if "status (fst (POST req env fetch)) = 500"
  proof (rule ccontr)
    assume "\<not> ?thesis"
    then have "status (fst (POST req env fetch)) = 400"
      using POST_no_email by blast
    with that show False by simp
  qed
  have c: "env ''SUBSCRIBE_WEBHOOK_URL'' = None \<or> env ''SUBSCRIBE_WEBHOOK_URL'' = Some []"
    if s: "status (fst (POST req env fetch)) = 500"
  proof -
    from b [OF s] obtain kvs e where ok: "string_email req kvs e" "e \<noteq> []"
      by blast
    from s show ?thesis
      unfolding POST_email [OF ok]
      by (auto split: option.splits if_splits sum.splits)
  qed
  from a b c show ?thesis by blast
qed

text \<open>
  C8 at a request whose \<open>email\<close> is a number, with the webhook configured and with
  the configuration empty, and at a request with an \<open>email\<close> and no configuration, which
  is answered with 500.
\<close>

theorem C8_email_before_config_witness:
  "status (fst (POST (Some (JObject [(''email'', JNumber 7)])) hook_env fetch_resolves)) = 400
   \<and> status (fst (POST (Some (JObject [(''email'', JNumber 7)]))
        (hook_env(''SUBSCRIBE_WEBHOOK_URL'' := None)) fetch_resolves)) = 400
   \<and> status (fst (POST (Some (JObject [(''email'', JString ''a@b.co'')]))
        Map.empty fetch_resolves)) = 500
   \<and> (\<exists>kvs e. string_email (Some (JObject [(''email'', JString ''a@b.co'')])) kvs e
         \<and> e \<noteq> [])"
proof -
  let ?bad = "Some (JObject [(''email'', JNumber 7)])"
  let ?good = "Some (JObject [(''email'', JString ''a@b.co'')])"
  have n: "\<nexists>kvs e. string_email ?bad kvs e"
    by auto
  have s: "status (fst (POST ?good Map.empty fetch_resolves)) = 500"
    by (simp add: POST_simps)
  from C8_email_before_config [of ?bad hook_env fetch_resolves] n
  have a: "status (fst (POST ?bad hook_env fetch_resolves)) = 400
         \<and> status (fst (POST ?bad (hook_env(''SUBSCRIBE_WEBHOOK_URL'' := None))
             fetch_resolves)) = 400"
    by blast
  from C8_email_before_config [of ?good Map.empty fetch_resolves] s
  have b: "\<exists>kvs e. string_email ?good kvs e \<and> e \<noteq> []"
    by blast
  from a s b show ?thesis by blast
qed

end
